theory Spec2Isabelle
  imports Main "HOL-Library.List_Lexorder" "HOL-Library.Char_ord" "HOL-Library.Option_ord"
begin

section \<open>The Monopoly service: route handlers over a database gateway\<close>

text \<open>
  The service of \<^verbatim>\<open>monopolyService.ts\<close> is a set of Express route handlers, each of
  which sends one or two SQL statements through a single \<^verbatim>\<open>pg\<close> client and turns the
  rows into a JSON response. The embedding has two layers.

  \<^item> The handlers themselves, written over an arbitrary gateway: a function that
    takes the statement text, the list of placeholder parameters and the database,
    and returns either an error (the rejected promise of \<^verbatim>\<open>db.query\<close>) or the rows,
    together with the database after the statement. Every handler returns its
    response, the effects it performed (statements submitted, lines logged) and
    the database it leaves behind.
  \<^item> A model of the database executing exactly the statement texts of the source
    on three tables, with the keys, references and cascades that the schema of the
    set-up script declares.
\<close>

subsection \<open>JSON values, responses and effects\<close>

datatype json =
    JNull
  | JInt int
  | JStr string
  | JTime int
  | JArr "json list"
  | JObj "(string \<times> json) list"

text \<open>A result row of \<^verbatim>\<open>pg\<close>: a JavaScript object from column name to value.\<close>

type_synonym row = "(string \<times> json) list"

datatype body = Text string | Json json

type_synonym response = "nat \<times> body"

datatype 'e effect =
    Query string "string list"
  | ConsoleLog string
  | ConsoleError 'e
  | ConsoleErrorMsg string 'e
  | Listen string

type_synonym ('e, 'db) gateway = "string \<Rightarrow> string list \<Rightarrow> 'db \<Rightarrow> ('e + row list) \<times> 'db"

type_synonym ('e, 'db) outcome = "response \<times> 'e effect list \<times> 'db"

definition response_of :: "('e, 'db) outcome \<Rightarrow> response" where
  "response_of out = fst out"

definition status_of :: "('e, 'db) outcome \<Rightarrow> nat" where
  "status_of out = fst (fst out)"

definition body_of :: "('e, 'db) outcome \<Rightarrow> body" where
  "body_of out = snd (fst out)"

definition effects_of :: "('e, 'db) outcome \<Rightarrow> 'e effect list" where
  "effects_of out = fst (snd out)"

definition db_of :: "('e, 'db) outcome \<Rightarrow> 'db" where
  "db_of out = snd (snd out)"

text \<open>The statements an outcome submitted to the gateway, in order: text and parameters.\<close>

fun queries :: "'e effect list \<Rightarrow> (string \<times> string list) list" where
  "queries [] = []"
| "queries (Query s ps # es) = (s, ps) # queries es"
| "queries (_ # es) = queries es"

text \<open>\<^verbatim>\<open>res.status(n).json({ error: msg })\<close>.\<close>

definition error_json :: "string \<Rightarrow> json" where
  "error_json msg = JObj [(''error'', JStr msg)]"

text \<open>The response every \<^verbatim>\<open>catch\<close> block of a handler sends.\<close>

definition internal_server_error :: response where
  "internal_server_error = (500, Json (JObj [(''error'', JStr ''Internal server error'')]))"

subsection \<open>The statement texts of the source\<close>

definition sqlScript :: string where
  "sqlScript =
     ''\<newline>'' @
     ''    -- Drop tables in reverse order of dependency\<newline>'' @
     ''    DROP TABLE IF EXISTS PlayerGame;\<newline>'' @
     ''    DROP TABLE IF EXISTS Game;\<newline>'' @
     ''    DROP TABLE IF EXISTS Player;\<newline>'' @
     ''\<newline>'' @
     ''    -- Player table\<newline>'' @
     ''    CREATE TABLE Player (\<newline>'' @
     ''        id SERIAL PRIMARY KEY,\<newline>'' @
     ''        name VARCHAR(100) NOT NULL,\<newline>'' @
     ''        email VARCHAR(100) UNIQUE\<newline>'' @
     ''    );\<newline>'' @
     ''\<newline>'' @
     ''    -- Game table\<newline>'' @
     ''    CREATE TABLE Game (\<newline>'' @
     ''        id SERIAL PRIMARY KEY,\<newline>'' @
     ''        time TIMESTAMP DEFAULT CURRENT_TIMESTAMP\<newline>'' @
     ''    );\<newline>'' @
     ''\<newline>'' @
     ''    -- PlayerGame join table\<newline>'' @
     ''    CREATE TABLE PlayerGame (\<newline>'' @
     ''        gameID INTEGER REFERENCES Game(id) ON DELETE CASCADE,\<newline>'' @
     ''        playerID INTEGER REFERENCES Player(id) ON DELETE CASCADE,\<newline>'' @
     ''        score INTEGER,\<newline>'' @
     ''        PRIMARY KEY (gameID, playerID)\<newline>'' @
     ''    );\<newline>'' @
     ''\<newline>'' @
     ''    -- --- SAMPLE DATA ---\<newline>'' @
     ''\<newline>'' @
     ''    -- Insert sample players\<newline>'' @
     ''    INSERT INTO Player (name, email) VALUES\<newline>'' @
     ''    ('Sebastian', 'seb@example.com'),\<newline>'' @
     ''    ('Mr. Monopoly', 'moneybags@example.com'),\<newline>'' @
     ''    ('Thimble', 'thimble@example.com');\<newline>'' @
     ''\<newline>'' @
     ''    -- Insert sample game 1\<newline>'' @
     ''    INSERT INTO Game (time) VALUES (NOW() - INTERVAL '2 days');\<newline>'' @
     ''    INSERT INTO PlayerGame (gameID, playerID, score) VALUES\<newline>'' @
     ''    (1, 1, 1500),\<newline>'' @
     ''    (1, 2, 2500);\<newline>'' @
     ''\<newline>'' @
     ''    -- Insert sample game 2\<newline>'' @
     ''    INSERT INTO Game (time) VALUES (NOW() - INTERVAL '1 day');\<newline>'' @
     ''    INSERT INTO PlayerGame (gameID, playerID, score) VALUES\<newline>'' @
     ''    (2, 1, 3200),\<newline>'' @
     ''    (2, 2, 1800),\<newline>'' @
     ''    (2, 3, 500);\<newline>'' @
     ''\<newline>'' @
     ''    -- Insert sample game 3\<newline>'' @
     ''    INSERT INTO Game (time) VALUES (NOW());\<newline>'' @
     ''    INSERT INTO PlayerGame (gameID, playerID, score) VALUES\<newline>'' @
     ''    (3, 2, 5000),\<newline>'' @
     ''    (3, 3, 4500);\<newline>'' @
     ''  ''"

definition sql_players :: string where
  "sql_players = ''SELECT * FROM Player ORDER BY name''"

definition sql_player_by_id :: string where
  "sql_player_by_id = ''SELECT * FROM Player WHERE id = $1''"

definition sql_delete_player :: string where
  "sql_delete_player = ''DELETE FROM Player WHERE id = $1 RETURNING *''"

definition sql_games :: string where
  "sql_games = ''SELECT * FROM Game ORDER BY time DESC''"

definition sql_game_scores :: string where
  "sql_game_scores =
     ''\<newline>'' @
     ''      SELECT P.name, PG.score\<newline>'' @
     ''      FROM Player P\<newline>'' @
     ''      JOIN PlayerGame PG ON P.id = PG.playerID\<newline>'' @
     ''      WHERE PG.gameID = $1\<newline>'' @
     ''      ORDER BY PG.score DESC\<newline>'' @
     ''    ''"

definition sql_game_by_id :: string where
  "sql_game_by_id = ''SELECT * FROM Game WHERE id = $1''"

definition sql_delete_game :: string where
  "sql_delete_game = ''DELETE FROM Game WHERE id = $1 RETURNING *''"

subsection \<open>Route handlers\<close>

text \<open>\<^verbatim>\<open>app.get('/')\<close>: no statement is submitted.\<close>

definition get_root :: "('e, 'db) gateway \<Rightarrow> 'db \<Rightarrow> ('e, 'db) outcome" where
  "get_root q db = ((200, Text ''Hello, CS 262 Monopoly service!''), [], db)"

text \<open>\<^verbatim>\<open>app.get('/players')\<close>.\<close>

definition get_players :: "('e, 'db) gateway \<Rightarrow> 'db \<Rightarrow> ('e, 'db) outcome" where
  "get_players q db =
     (case q sql_players [] db of
        (Inr rows, db') \<Rightarrow>
          ((200, Json (JArr (map JObj rows))), [Query sql_players []], db')
      | (Inl err, db') \<Rightarrow>
          ((500, Json (error_json ''Internal server error'')),
           [Query sql_players [], ConsoleError err], db'))"

text \<open>\<^verbatim>\<open>app.get('/players/:id')\<close>: the path segment is handed on as it came.\<close>

definition get_player :: "('e, 'db) gateway \<Rightarrow> string \<Rightarrow> 'db \<Rightarrow> ('e, 'db) outcome" where
  "get_player q ident db =
     (case q sql_player_by_id [ident] db of
        (Inr rows, db') \<Rightarrow>
          (case rows of
             [] \<Rightarrow> ((404, Json (error_json ''Player not found'')),
                    [Query sql_player_by_id [ident]], db')
           | r # _ \<Rightarrow> ((200, Json (JObj r)), [Query sql_player_by_id [ident]], db'))
      | (Inl err, db') \<Rightarrow>
          ((500, Json (error_json ''Internal server error'')),
           [Query sql_player_by_id [ident], ConsoleError err], db'))"

text \<open>\<^verbatim>\<open>app.delete('/players/:id')\<close>.\<close>

definition delete_player :: "('e, 'db) gateway \<Rightarrow> string \<Rightarrow> 'db \<Rightarrow> ('e, 'db) outcome" where
  "delete_player q ident db =
     (case q sql_delete_player [ident] db of
        (Inr rows, db') \<Rightarrow>
          (case rows of
             [] \<Rightarrow> ((404, Json (error_json ''Player not found'')),
                    [Query sql_delete_player [ident]], db')
           | r # _ \<Rightarrow>
               ((200, Json (JObj [(''message'', JStr ''Player deleted successfully''),
                                  (''player'', JObj r)])),
                [Query sql_delete_player [ident]], db'))
      | (Inl err, db') \<Rightarrow>
          ((500, Json (error_json ''Internal server error'')),
           [Query sql_delete_player [ident], ConsoleError err], db'))"

text \<open>\<^verbatim>\<open>app.get('/games')\<close>.\<close>

definition get_games :: "('e, 'db) gateway \<Rightarrow> 'db \<Rightarrow> ('e, 'db) outcome" where
  "get_games q db =
     (case q sql_games [] db of
        (Inr rows, db') \<Rightarrow>
          ((200, Json (JArr (map JObj rows))), [Query sql_games []], db')
      | (Inl err, db') \<Rightarrow>
          ((500, Json (error_json ''Internal server error'')),
           [Query sql_games [], ConsoleError err], db'))"

text \<open>
  \<^verbatim>\<open>app.get('/games/:id')\<close>: the join first; the look-up in \<^verbatim>\<open>Game\<close> only in the
  branch where the join came back with no rows. Both statements are inside the one
  \<^verbatim>\<open>try\<close> block.
\<close>

definition get_game :: "('e, 'db) gateway \<Rightarrow> string \<Rightarrow> 'db \<Rightarrow> ('e, 'db) outcome" where
  "get_game q ident db =
     (case q sql_game_scores [ident] db of
        (Inr rows, db1) \<Rightarrow>
          (if length rows = 0 then
             (case q sql_game_by_id [ident] db1 of
                (Inr gameExists, db2) \<Rightarrow>
                  (if length gameExists = 0 then
                     ((404, Json (error_json ''Game not found'')),
                      [Query sql_game_scores [ident], Query sql_game_by_id [ident]], db2)
                   else
                     ((200, Json (JArr [])),
                      [Query sql_game_scores [ident], Query sql_game_by_id [ident]], db2))
              | (Inl err, db2) \<Rightarrow>
                  ((500, Json (error_json ''Internal server error'')),
                   [Query sql_game_scores [ident], Query sql_game_by_id [ident], ConsoleError err],
                   db2))
           else ((200, Json (JArr (map JObj rows))), [Query sql_game_scores [ident]], db1))
      | (Inl err, db1) \<Rightarrow>
          ((500, Json (error_json ''Internal server error'')),
           [Query sql_game_scores [ident], ConsoleError err], db1))"

text \<open>\<^verbatim>\<open>app.delete('/games/:id')\<close>.\<close>

definition delete_game :: "('e, 'db) gateway \<Rightarrow> string \<Rightarrow> 'db \<Rightarrow> ('e, 'db) outcome" where
  "delete_game q ident db =
     (case q sql_delete_game [ident] db of
        (Inr rows, db') \<Rightarrow>
          (case rows of
             [] \<Rightarrow> ((404, Json (error_json ''Game not found'')),
                    [Query sql_delete_game [ident]], db')
           | r # _ \<Rightarrow>
               ((200, Json (JObj [(''message'', JStr ''Game deleted successfully''),
                                  (''game'', JObj r)])),
                [Query sql_delete_game [ident]], db'))
      | (Inl err, db') \<Rightarrow>
          ((500, Json (error_json ''Internal server error'')),
           [Query sql_delete_game [ident], ConsoleError err], db'))"

text \<open>The routing table of the application: method and path select the handler.\<close>

datatype request =
    GetRoot
  | GetPlayers
  | GetPlayer string
  | DeletePlayer string
  | GetGames
  | GetGame string
  | DeleteGame string

fun handle :: "('e, 'db) gateway \<Rightarrow> request \<Rightarrow> 'db \<Rightarrow> ('e, 'db) outcome" where
  "handle q GetRoot db = get_root q db"
| "handle q GetPlayers db = get_players q db"
| "handle q (GetPlayer ident) db = get_player q ident db"
| "handle q (DeletePlayer ident) db = delete_player q ident db"
| "handle q GetGames db = get_games q db"
| "handle q (GetGame ident) db = get_game q ident db"
| "handle q (DeleteGame ident) db = delete_game q ident db"

fun is_get :: "request \<Rightarrow> bool" where
  "is_get (DeletePlayer _) = False"
| "is_get (DeleteGame _) = False"
| "is_get _ = True"

subsection \<open>Start-up\<close>

text \<open>
  \<^verbatim>\<open>setupDatabase\<close>: submit the script; log and rethrow when it fails.
\<close>

definition setupDatabase :: "('e, 'db) gateway \<Rightarrow> 'db \<Rightarrow> ('e + unit) \<times> 'e effect list \<times> 'db" where
  "setupDatabase q db =
     (case q sqlScript [] db of
        (Inr _, db') \<Rightarrow>
          (Inr (),
           [Query sqlScript [],
            ConsoleLog ''Database schema and sample data initialized successfully.''],
           db')
      | (Inl err, db') \<Rightarrow>
          (Inl err,
           [Query sqlScript [], ConsoleErrorMsg ''Error initializing database:'' err],
           db'))"

text \<open>
  The process after the start-up chain has settled: listening on its port, or gone
  with an exit status.
\<close>

datatype process = Listening | Exited nat

text \<open>
  \<^verbatim>\<open>db.connect().then(...).catch(...)\<close>. The first argument is how \<^verbatim>\<open>db.connect()\<close>
  settled. A rejection of the \<^verbatim>\<open>then\<close> callback, which is where \<^verbatim>\<open>setupDatabase\<close>
  rethrows, reaches the same \<^verbatim>\<open>catch\<close> as a failed connection.
\<close>

definition main :: "'e + unit \<Rightarrow> ('e, 'db) gateway \<Rightarrow> string \<Rightarrow> 'db
    \<Rightarrow> process \<times> 'e effect list \<times> 'db" where
  "main connected q port db =
     (case connected of
        Inl err \<Rightarrow> (Exited 1, [ConsoleErrorMsg ''Database connection error:'' err], db)
      | Inr _ \<Rightarrow>
          (case setupDatabase q db of
             (Inr _, effs, db') \<Rightarrow>
               (Listening,
                [ConsoleLog ''Database connected''] @ effs @
                [Listen port,
                 ConsoleLog (''Monopoly service listening at http://localhost:'' @ port)],
                db')
           | (Inl err, effs, db') \<Rightarrow>
               (Exited 1,
                [ConsoleLog ''Database connected''] @ effs @
                [ConsoleErrorMsg ''Database connection error:'' err],
                db')))"

text \<open>Whether the trace of effects contains the call of \<^verbatim>\<open>app.listen\<close>.\<close>

fun is_listen :: "'e effect \<Rightarrow> bool" where
  "is_listen (Listen _) = True"
| "is_listen _ = False"

subsection \<open>The database: tables, keys and the statements of the source\<close>

text \<open>
  The three tables of the set-up script, each a list of rows in insertion order, and
  the two sequences behind the \<^verbatim>\<open>SERIAL\<close> columns. Integers of the schema are \<^verbatim>\<open>int\<close>;
  a nullable column is an \<^verbatim>\<open>option\<close>; a timestamp is a number of microseconds.
\<close>

record player =
  p_id :: int
  p_name :: string
  p_email :: "string option"

record game =
  g_id :: int
  g_time :: int

record playergame =
  pg_gameID :: int
  pg_playerID :: int
  pg_score :: "int option"

record database =
  Player :: "player list"
  Game :: "game list"
  PlayerGame :: "playergame list"
  Player_id_seq :: int
  Game_id_seq :: int

datatype pg_error =
    InvalidTextRepresentation
  | NumericValueOutOfRange
  | StringDataRightTruncation
  | UniqueViolation
  | ForeignKeyViolation
  | ProtocolViolation
  | SyntaxError

text \<open>
  The path parameter reaches the server as text and is read there as a value of the
  \<^verbatim>\<open>INTEGER\<close> column it is compared with. The reader is the integer input of
  PostgreSQL from version 16 on: white space, an optional sign, then digits, then white
  space. The digits are decimal, or hexadecimal, octal or binary after \<^verbatim>\<open>0x\<close>, \<^verbatim>\<open>0o\<close> or
  \<^verbatim>\<open>0b\<close>; an underscore may stand before a digit, though not at the head of a decimal
  number. The value must fit 32 bits. Anything else makes the statement fail. (A server
  older than that reads the decimal form without underscores only, and refuses the rest.)
\<close>

definition is_space :: "char \<Rightarrow> bool" where
  "is_space c = (c \<in> set [CHR '' '', CHR 0x09, CHR ''\<newline>'', CHR 0x0B, CHR 0x0C, CHR 0x0D])"

text \<open>The value of a character as a digit of the base, when it is one.\<close>

definition digit_in :: "int \<Rightarrow> char \<Rightarrow> int option" where
  "digit_in base c =
     (let v = (if c \<in> set ''0123456789'' then Some (int (of_char c) - 48)
               else if c \<in> set ''abcdef'' then Some (int (of_char c) - 87)
               else if c \<in> set ''ABCDEF'' then Some (int (of_char c) - 55)
               else None)
      in case v of
           None \<Rightarrow> None
         | Some d \<Rightarrow> if d < base then Some d else None)"

text \<open>
  The loop over the digits. It carries the value so far and whether anything has been
  consumed, stops at the first character that is neither a digit nor an underscore, and
  gives up as soon as one more digit would leave the 32 bits.
\<close>

fun scan_digits :: "int \<Rightarrow> bool \<Rightarrow> int \<Rightarrow> string \<Rightarrow> pg_error + int \<times> bool \<times> string" where
  "scan_digits base moved tmp [] = Inr (tmp, moved, [])"
| "scan_digits base moved tmp (c # r) =
     (case digit_in base c of
        Some d \<Rightarrow>
          if 2147483648 div base < tmp then Inl NumericValueOutOfRange
          else scan_digits base True (tmp * base + d) r
      | None \<Rightarrow>
          if c = CHR ''_'' then
            (if base = 10 \<and> \<not> moved then Inl InvalidTextRepresentation
             else case r of
                    [] \<Rightarrow> Inl InvalidTextRepresentation
                  | c' # _ \<Rightarrow>
                      if digit_in base c' = None then Inl InvalidTextRepresentation
                      else scan_digits base True tmp r)
          else Inr (tmp, moved, c # r))"

text \<open>The base a number is written in, and what follows the prefix.\<close>

definition split_base :: "string \<Rightarrow> int \<times> string" where
  "split_base u =
     (case u of
        c0 # c1 # r \<Rightarrow>
          if c0 = CHR ''0'' \<and> (c1 = CHR ''x'' \<or> c1 = CHR ''X'') then (16, r)
          else if c0 = CHR ''0'' \<and> (c1 = CHR ''o'' \<or> c1 = CHR ''O'') then (8, r)
          else if c0 = CHR ''0'' \<and> (c1 = CHR ''b'' \<or> c1 = CHR ''B'') then (2, r)
          else (10, u)
      | _ \<Rightarrow> (10, u))"

definition int4_in :: "string \<Rightarrow> pg_error + int" where
  "int4_in s =
     (let t = dropWhile is_space s;
          neg = (case t of c # _ \<Rightarrow> c = CHR ''-'' | [] \<Rightarrow> False);
          u = (case t of c # r \<Rightarrow> if c = CHR ''-'' \<or> c = CHR ''+'' then r else t | [] \<Rightarrow> t)
      in case scan_digits (fst (split_base u)) False 0 (snd (split_base u)) of
           Inl e \<Rightarrow> Inl e
         | Inr (tmp, moved, rest) \<Rightarrow>
             if \<not> moved \<or> dropWhile is_space rest \<noteq> [] then Inl InvalidTextRepresentation
             else if neg then
               (if 2147483648 < tmp then Inl NumericValueOutOfRange else Inr (- tmp))
             else if 2147483647 < tmp then Inl NumericValueOutOfRange
             else Inr tmp)"

text \<open>Rows as the driver hands them out: column names in lower case, \<^verbatim>\<open>NULL\<close> as \<^verbatim>\<open>null\<close>.\<close>

definition player_row :: "player \<Rightarrow> row" where
  "player_row p =
     [(''id'', JInt (p_id p)), (''name'', JStr (p_name p)),
      (''email'', case p_email p of None \<Rightarrow> JNull | Some e \<Rightarrow> JStr e)]"

definition game_row :: "game \<Rightarrow> row" where
  "game_row g = [(''id'', JInt (g_id g)), (''time'', JTime (g_time g))]"

definition score_row :: "player \<times> playergame \<Rightarrow> row" where
  "score_row pr =
     [(''name'', JStr (p_name (fst pr))),
      (''score'', case pg_score (snd pr) of None \<Rightarrow> JNull | Some s \<Rightarrow> JInt s)]"

text \<open>
  \<^verbatim>\<open>SELECT * FROM Player ORDER BY name\<close>. Text is compared byte by byte; rows with equal
  keys keep their table order.
\<close>

definition select_players :: "database \<Rightarrow> row list" where
  "select_players db = map player_row (sort_key p_name (Player db))"

text \<open>\<^verbatim>\<open>SELECT * FROM Player WHERE id = $1\<close>.\<close>

definition select_player_by_id :: "int \<Rightarrow> database \<Rightarrow> row list" where
  "select_player_by_id n db = map player_row (filter (\<lambda>p. p_id p = n) (Player db))"

text \<open>
  \<^verbatim>\<open>DELETE FROM Player WHERE id = $1 RETURNING *\<close>. The rows of \<^verbatim>\<open>PlayerGame\<close> that
  reference a deleted player go with it (\<^verbatim>\<open>ON DELETE CASCADE\<close>).
\<close>

definition delete_player_by_id :: "int \<Rightarrow> database \<Rightarrow> row list \<times> database" where
  "delete_player_by_id n db =
     (let deleted = filter (\<lambda>p. p_id p = n) (Player db)
      in (map player_row deleted,
          db\<lparr>Player := filter (\<lambda>p. p_id p \<noteq> n) (Player db),
             PlayerGame :=
               filter (\<lambda>r. pg_playerID r \<notin> set (map p_id deleted)) (PlayerGame db)\<rparr>))"

text \<open>\<^verbatim>\<open>SELECT * FROM Game ORDER BY time DESC\<close>.\<close>

definition select_games :: "database \<Rightarrow> row list" where
  "select_games db = map game_row (sort_key (\<lambda>g. - g_time g) (Game db))"

text \<open>
  The join of \<^verbatim>\<open>app.get('/games/:id')\<close>. In descending order \<^verbatim>\<open>NULL\<close> scores come
  first.
\<close>

definition select_game_scores :: "int \<Rightarrow> database \<Rightarrow> row list" where
  "select_game_scores n db =
     map score_row
       (sort_key (\<lambda>pr. map_option uminus (pg_score (snd pr)))
          [(p, r). p \<leftarrow> Player db, r \<leftarrow> PlayerGame db,
                   p_id p = pg_playerID r, pg_gameID r = n])"

text \<open>\<^verbatim>\<open>SELECT * FROM Game WHERE id = $1\<close>.\<close>

definition select_game_by_id :: "int \<Rightarrow> database \<Rightarrow> row list" where
  "select_game_by_id n db = map game_row (filter (\<lambda>g. g_id g = n) (Game db))"

text \<open>\<^verbatim>\<open>DELETE FROM Game WHERE id = $1 RETURNING *\<close>, with its cascade.\<close>

definition delete_game_by_id :: "int \<Rightarrow> database \<Rightarrow> row list \<times> database" where
  "delete_game_by_id n db =
     (let deleted = filter (\<lambda>g. g_id g = n) (Game db)
      in (map game_row deleted,
          db\<lparr>Game := filter (\<lambda>g. g_id g \<noteq> n) (Game db),
             PlayerGame :=
               filter (\<lambda>r. pg_gameID r \<notin> set (map g_id deleted)) (PlayerGame db)\<rparr>))"

subsection \<open>The set-up script, statement by statement\<close>

definition drop_PlayerGame :: "database \<Rightarrow> pg_error + database" where
  "drop_PlayerGame db = Inr (db\<lparr>PlayerGame := []\<rparr>)"

definition drop_Game :: "database \<Rightarrow> pg_error + database" where
  "drop_Game db = Inr (db\<lparr>Game := []\<rparr>)"

definition drop_Player :: "database \<Rightarrow> pg_error + database" where
  "drop_Player db = Inr (db\<lparr>Player := []\<rparr>)"

definition create_Player :: "database \<Rightarrow> pg_error + database" where
  "create_Player db = Inr (db\<lparr>Player := [], Player_id_seq := 1\<rparr>)"

definition create_Game :: "database \<Rightarrow> pg_error + database" where
  "create_Game db = Inr (db\<lparr>Game := [], Game_id_seq := 1\<rparr>)"

definition create_PlayerGame :: "database \<Rightarrow> pg_error + database" where
  "create_PlayerGame db = Inr (db\<lparr>PlayerGame := []\<rparr>)"

text \<open>
  \<^verbatim>\<open>INSERT INTO Player (name, email)\<close>: the id comes from the sequence; the name is at
  most 100 characters; the email is unique where it is not \<^verbatim>\<open>NULL\<close>.
\<close>

definition insert_Player :: "string \<Rightarrow> string option \<Rightarrow> database \<Rightarrow> pg_error + database" where
  "insert_Player name email db =
     (if 100 < length name \<or> (case email of None \<Rightarrow> False | Some e \<Rightarrow> 100 < length e)
      then Inl StringDataRightTruncation
      else if Player_id_seq db \<in> set (map p_id (Player db))
              \<or> (email \<noteq> None \<and> email \<in> set (map p_email (Player db)))
      then Inl UniqueViolation
      else Inr (db\<lparr>Player :=
                     Player db @ [\<lparr>p_id = Player_id_seq db, p_name = name, p_email = email\<rparr>],
                   Player_id_seq := Player_id_seq db + 1\<rparr>))"

text \<open>\<^verbatim>\<open>INSERT INTO Game (time)\<close>.\<close>

definition insert_Game :: "int \<Rightarrow> database \<Rightarrow> pg_error + database" where
  "insert_Game t db =
     (if Game_id_seq db \<in> set (map g_id (Game db)) then Inl UniqueViolation
      else Inr (db\<lparr>Game := Game db @ [\<lparr>g_id = Game_id_seq db, g_time = t\<rparr>],
                   Game_id_seq := Game_id_seq db + 1\<rparr>))"

text \<open>
  \<^verbatim>\<open>INSERT INTO PlayerGame (gameID, playerID, score)\<close>: the pair is the primary key,
  and both halves reference existing rows.
\<close>

definition insert_PlayerGame :: "int \<Rightarrow> int \<Rightarrow> int option \<Rightarrow> database \<Rightarrow> pg_error + database" where
  "insert_PlayerGame gid pid score db =
     (if (gid, pid) \<in> set (map (\<lambda>r. (pg_gameID r, pg_playerID r)) (PlayerGame db))
      then Inl UniqueViolation
      else if gid \<notin> set (map g_id (Game db)) \<or> pid \<notin> set (map p_id (Player db))
      then Inl ForeignKeyViolation
      else Inr (db\<lparr>PlayerGame :=
                     PlayerGame db @ [\<lparr>pg_gameID = gid, pg_playerID = pid, pg_score = score\<rparr>]\<rparr>))"

text \<open>Statements one after the other; the first failure ends the run.\<close>

fun exec_all :: "(database \<Rightarrow> pg_error + database) list \<Rightarrow> database \<Rightarrow> pg_error + database" where
  "exec_all [] db = Inr db"
| "exec_all (st # sts) db = (case st db of Inl e \<Rightarrow> Inl e | Inr db' \<Rightarrow> exec_all sts db')"

definition day :: int where
  "day = 86400000000"

text \<open>
  The script of \<^verbatim>\<open>setupDatabase\<close>. It runs as one transaction, so \<^verbatim>\<open>NOW()\<close> is the same
  instant in each of its statements.
\<close>

definition run_script :: "int \<Rightarrow> database \<Rightarrow> pg_error + database" where
  "run_script now db =
     exec_all
       [drop_PlayerGame, drop_Game, drop_Player,
        create_Player, create_Game, create_PlayerGame,
        insert_Player ''Sebastian'' (Some ''seb@example.com''),
        insert_Player ''Mr. Monopoly'' (Some ''moneybags@example.com''),
        insert_Player ''Thimble'' (Some ''thimble@example.com''),
        insert_Game (now - 2 * day),
        insert_PlayerGame 1 1 (Some 1500),
        insert_PlayerGame 1 2 (Some 2500),
        insert_Game (now - 1 * day),
        insert_PlayerGame 2 1 (Some 3200),
        insert_PlayerGame 2 2 (Some 1800),
        insert_PlayerGame 2 3 (Some 500),
        insert_Game now,
        insert_PlayerGame 3 2 (Some 5000),
        insert_PlayerGame 3 3 (Some 4500)]
       db"

subsection \<open>The gateway over this database\<close>

text \<open>A statement with the one placeholder \<^verbatim>\<open>$1\<close>, compared with an integer column.\<close>

definition with_id :: "string list \<Rightarrow> database \<Rightarrow> (int \<Rightarrow> row list \<times> database)
    \<Rightarrow> (pg_error + row list) \<times> database" where
  "with_id params db f =
     (case params of
        [p] \<Rightarrow> (case int4_in p of
                  Inl e \<Rightarrow> (Inl e, db)
                | Inr n \<Rightarrow> (case f n of (rows, db') \<Rightarrow> (Inr rows, db')))
      | _ \<Rightarrow> (Inl ProtocolViolation, db))"

definition without_params :: "string list \<Rightarrow> database \<Rightarrow> row list
    \<Rightarrow> (pg_error + row list) \<times> database" where
  "without_params params db rows =
     (case params of [] \<Rightarrow> (Inr rows, db) | _ \<Rightarrow> (Inl ProtocolViolation, db))"

text \<open>
  \<^verbatim>\<open>db.query\<close> against this database, at time \<^verbatim>\<open>now\<close>: the statement texts of the
  source, each with its meaning. A failed script leaves the database as it was.
\<close>

definition pg_query :: "int \<Rightarrow> (pg_error, database) gateway" where
  "pg_query now sql params db =
     (if sql = sqlScript then
        (case params of
           [] \<Rightarrow> (case run_script now db of
                    Inl e \<Rightarrow> (Inl e, db)
                  | Inr db' \<Rightarrow> (Inr [], db'))
         | _ \<Rightarrow> (Inl ProtocolViolation, db))
      else if sql = sql_players then without_params params db (select_players db)
      else if sql = sql_player_by_id then
        with_id params db (\<lambda>n. (select_player_by_id n db, db))
      else if sql = sql_delete_player then with_id params db (\<lambda>n. delete_player_by_id n db)
      else if sql = sql_games then without_params params db (select_games db)
      else if sql = sql_game_scores then
        with_id params db (\<lambda>n. (select_game_scores n db, db))
      else if sql = sql_game_by_id then with_id params db (\<lambda>n. (select_game_by_id n db, db))
      else if sql = sql_delete_game then with_id params db (\<lambda>n. delete_game_by_id n db)
      else (Inl SyntaxError, db))"

subsection \<open>Reachable states and the constraints of the schema\<close>

text \<open>The database before the service has ever run.\<close>

definition empty_database :: database where
  "empty_database =
     \<lparr>Player = [], Game = [], PlayerGame = [], Player_id_seq = 1, Game_id_seq = 1\<rparr>"

text \<open>The database a process started at time \<^verbatim>\<open>now\<close> on port 3000 begins to serve from.\<close>

definition started_db :: "int \<Rightarrow> database" where
  "started_db now =
     snd (snd (main (Inr () :: pg_error + unit) (pg_query now) ''3000'' empty_database))"

text \<open>
  The states the service can be in while it serves: the one a successful start-up
  leaves, and every state that a request takes such a state to.
\<close>

inductive reachable :: "database \<Rightarrow> bool" where
  startup: "main connected (pg_query now) port db0 = (Listening, effs, db) \<Longrightarrow> reachable db"
| request: "reachable db \<Longrightarrow> reachable (db_of (handle (pg_query now) req db))"

text \<open>
  What the schema declares: the primary keys of the three tables, the unique email,
  and the two references of \<^verbatim>\<open>PlayerGame\<close>.
\<close>

definition integrity :: "database \<Rightarrow> bool" where
  "integrity db \<longleftrightarrow>
     distinct (map p_id (Player db)) \<and>
     distinct (map g_id (Game db)) \<and>
     distinct (map (\<lambda>r. (pg_gameID r, pg_playerID r)) (PlayerGame db)) \<and>
     distinct (filter (\<lambda>e. e \<noteq> None) (map p_email (Player db))) \<and>
     (\<forall>r \<in> set (PlayerGame db).
        pg_gameID r \<in> set (map g_id (Game db)) \<and> pg_playerID r \<in> set (map p_id (Player db)))"

text \<open>Whether the path parameter names a row of \<^verbatim>\<open>Game\<close>, respectively \<^verbatim>\<open>Player\<close>.\<close>

definition game_row_exists :: "string \<Rightarrow> database \<Rightarrow> bool" where
  "game_row_exists ident db =
     (case int4_in ident of Inl _ \<Rightarrow> False | Inr n \<Rightarrow> n \<in> set (map g_id (Game db)))"

definition player_row_exists :: "string \<Rightarrow> database \<Rightarrow> bool" where
  "player_row_exists ident db =
     (case int4_in ident of Inl _ \<Rightarrow> False | Inr n \<Rightarrow> n \<in> set (map p_id (Player db)))"

text \<open>The statement texts an outcome submitted, without their parameters.\<close>

definition texts :: "('e, 'db) outcome \<Rightarrow> string list" where
  "texts out = map fst (queries (effects_of out))"

text \<open>
  A database the schema allows, though no request leads to it: the one player of the
  one game has no score.
\<close>

definition unscored_db :: database where
  "unscored_db =
     \<lparr>Player = [\<lparr>p_id = 1, p_name = ''Thimble'', p_email = None\<rparr>],
      Game = [\<lparr>g_id = 1, g_time = 0\<rparr>],
      PlayerGame = [\<lparr>pg_gameID = 1, pg_playerID = 1, pg_score = None\<rparr>],
      Player_id_seq = 2, Game_id_seq = 2\<rparr>"

section \<open>Properties\<close>

subsection \<open>The gateway on each statement text\<close>

lemmas sql_defs = sqlScript_def sql_players_def sql_player_by_id_def sql_delete_player_def
  sql_games_def sql_game_scores_def sql_game_by_id_def sql_delete_game_def

lemma pg_query_script:
  "pg_query now sqlScript [] db =
     (case run_script now db of Inl e \<Rightarrow> (Inl e, db) | Inr db' \<Rightarrow> (Inr [], db'))"
  by (simp add: pg_query_def)

lemma sql_players_neq: "sql_players \<noteq> sqlScript"
  by (simp add: sql_defs)

lemma pg_query_players: "pg_query now sql_players [] db = (Inr (select_players db), db)"
  by (simp add: pg_query_def sql_players_neq without_params_def)

lemma sql_player_by_id_neq: "sql_player_by_id \<noteq> sqlScript" "sql_player_by_id \<noteq> sql_players"
  by (simp_all add: sql_defs)

lemma pg_query_player_by_id:
  "pg_query now sql_player_by_id [ident] db =
     (case int4_in ident of Inl e \<Rightarrow> (Inl e, db)
      | Inr n \<Rightarrow> (Inr (select_player_by_id n db), db))"
  by (simp add: pg_query_def sql_player_by_id_neq with_id_def split: sum.splits)

lemma sql_delete_player_neq:
  "sql_delete_player \<noteq> sqlScript" "sql_delete_player \<noteq> sql_players"
  "sql_delete_player \<noteq> sql_player_by_id"
  by (simp_all add: sql_defs)

lemma pg_query_delete_player:
  "pg_query now sql_delete_player [ident] db =
     (case int4_in ident of Inl e \<Rightarrow> (Inl e, db)
      | Inr n \<Rightarrow> (Inr (fst (delete_player_by_id n db)), snd (delete_player_by_id n db)))"
  by (simp add: pg_query_def sql_delete_player_neq with_id_def split: sum.splits prod.splits)

lemma sql_games_neq:
  "sql_games \<noteq> sqlScript" "sql_games \<noteq> sql_players"
  "sql_games \<noteq> sql_player_by_id" "sql_games \<noteq> sql_delete_player"
  by (simp_all add: sql_defs)

lemma pg_query_games: "pg_query now sql_games [] db = (Inr (select_games db), db)"
  by (simp add: pg_query_def sql_games_neq without_params_def)

lemma sql_game_scores_neq:
  "sql_game_scores \<noteq> sqlScript" "sql_game_scores \<noteq> sql_players"
  "sql_game_scores \<noteq> sql_player_by_id" "sql_game_scores \<noteq> sql_delete_player"
  "sql_game_scores \<noteq> sql_games"
  by (simp_all add: sql_defs)

lemma pg_query_game_scores:
  "pg_query now sql_game_scores [ident] db =
     (case int4_in ident of Inl e \<Rightarrow> (Inl e, db)
      | Inr n \<Rightarrow> (Inr (select_game_scores n db), db))"
  by (simp add: pg_query_def sql_game_scores_neq with_id_def split: sum.splits)

lemma sql_game_by_id_neq:
  "sql_game_by_id \<noteq> sqlScript" "sql_game_by_id \<noteq> sql_players"
  "sql_game_by_id \<noteq> sql_player_by_id" "sql_game_by_id \<noteq> sql_delete_player"
  "sql_game_by_id \<noteq> sql_games" "sql_game_by_id \<noteq> sql_game_scores"
  by (simp_all add: sql_defs)

lemma pg_query_game_by_id:
  "pg_query now sql_game_by_id [ident] db =
     (case int4_in ident of Inl e \<Rightarrow> (Inl e, db)
      | Inr n \<Rightarrow> (Inr (select_game_by_id n db), db))"
  by (simp add: pg_query_def sql_game_by_id_neq with_id_def split: sum.splits)

lemma sql_delete_game_neq:
  "sql_delete_game \<noteq> sqlScript" "sql_delete_game \<noteq> sql_players"
  "sql_delete_game \<noteq> sql_player_by_id" "sql_delete_game \<noteq> sql_delete_player"
  "sql_delete_game \<noteq> sql_games" "sql_delete_game \<noteq> sql_game_scores"
  "sql_delete_game \<noteq> sql_game_by_id"
  by (simp_all add: sql_defs)

lemma pg_query_delete_game:
  "pg_query now sql_delete_game [ident] db =
     (case int4_in ident of Inl e \<Rightarrow> (Inl e, db)
      | Inr n \<Rightarrow> (Inr (fst (delete_game_by_id n db)), snd (delete_game_by_id n db)))"
  by (simp add: pg_query_def sql_delete_game_neq with_id_def split: sum.splits prod.splits)

lemma run_script_result:
  "run_script now db =
     Inr \<lparr>Player =
            [\<lparr>p_id = 1, p_name = ''Sebastian'', p_email = Some ''seb@example.com''\<rparr>,
             \<lparr>p_id = 2, p_name = ''Mr. Monopoly'', p_email = Some ''moneybags@example.com''\<rparr>,
             \<lparr>p_id = 3, p_name = ''Thimble'', p_email = Some ''thimble@example.com''\<rparr>],
          Game =
            [\<lparr>g_id = 1, g_time = now - 2 * day\<rparr>,
             \<lparr>g_id = 2, g_time = now - day\<rparr>,
             \<lparr>g_id = 3, g_time = now\<rparr>],
          PlayerGame =
            [\<lparr>pg_gameID = 1, pg_playerID = 1, pg_score = Some 1500\<rparr>,
             \<lparr>pg_gameID = 1, pg_playerID = 2, pg_score = Some 2500\<rparr>,
             \<lparr>pg_gameID = 2, pg_playerID = 1, pg_score = Some 3200\<rparr>,
             \<lparr>pg_gameID = 2, pg_playerID = 2, pg_score = Some 1800\<rparr>,
             \<lparr>pg_gameID = 2, pg_playerID = 3, pg_score = Some 500\<rparr>,
             \<lparr>pg_gameID = 3, pg_playerID = 2, pg_score = Some 5000\<rparr>,
             \<lparr>pg_gameID = 3, pg_playerID = 3, pg_score = Some 4500\<rparr>],
          Player_id_seq = 4, Game_id_seq = 4\<rparr>"
  by (simp add: run_script_def drop_PlayerGame_def drop_Game_def drop_Player_def
      create_Player_def create_Game_def create_PlayerGame_def
      insert_Player_def insert_Game_def insert_PlayerGame_def)

subsection \<open>The handlers over any gateway\<close>

lemmas outcome_defs = response_of_def status_of_def body_of_def effects_of_def db_of_def

lemmas handler_defs = get_root_def get_players_def get_player_def delete_player_def
  get_games_def get_game_def delete_game_def

lemma get_players_500:
  fixes q :: "('e, 'db) gateway"
  shows "response_of (get_players q db) = internal_server_error
           \<longleftrightarrow> isl (fst (q sql_players [] db))"
  by (auto simp: get_players_def outcome_defs internal_server_error_def error_json_def
      split: prod.splits sum.splits)

lemma get_games_500:
  fixes q :: "('e, 'db) gateway"
  shows "response_of (get_games q db) = internal_server_error
           \<longleftrightarrow> isl (fst (q sql_games [] db))"
  by (auto simp: get_games_def outcome_defs internal_server_error_def error_json_def
      split: prod.splits sum.splits)

lemma get_player_500_404:
  fixes q :: "('e, 'db) gateway"
  shows "response_of (get_player q ident db) = internal_server_error
           \<longleftrightarrow> isl (fst (q sql_player_by_id [ident] db))"
    and "status_of (get_player q ident db) = 404
           \<longleftrightarrow> fst (q sql_player_by_id [ident] db) = Inr []"
  by (auto simp: get_player_def outcome_defs internal_server_error_def error_json_def
      split: prod.splits sum.splits list.splits)

lemma delete_player_500_404:
  fixes q :: "('e, 'db) gateway"
  shows "response_of (delete_player q ident db) = internal_server_error
           \<longleftrightarrow> isl (fst (q sql_delete_player [ident] db))"
    and "status_of (delete_player q ident db) = 404
           \<longleftrightarrow> fst (q sql_delete_player [ident] db) = Inr []"
  by (auto simp: delete_player_def outcome_defs internal_server_error_def error_json_def
      split: prod.splits sum.splits list.splits)

lemma delete_game_500_404:
  fixes q :: "('e, 'db) gateway"
  shows "response_of (delete_game q ident db) = internal_server_error
           \<longleftrightarrow> isl (fst (q sql_delete_game [ident] db))"
    and "status_of (delete_game q ident db) = 404
           \<longleftrightarrow> fst (q sql_delete_game [ident] db) = Inr []"
  by (auto simp: delete_game_def outcome_defs internal_server_error_def error_json_def
      split: prod.splits sum.splits list.splits)

lemma get_game_500_404:
  fixes q :: "('e, 'db) gateway"
  shows "response_of (get_game q ident db) = internal_server_error
           \<longleftrightarrow> isl (fst (q sql_game_scores [ident] db))
               \<or> fst (q sql_game_scores [ident] db) = Inr []
                 \<and> isl (fst (q sql_game_by_id [ident] (snd (q sql_game_scores [ident] db))))"
    and "status_of (get_game q ident db) = 404
           \<longleftrightarrow> fst (q sql_game_scores [ident] db) = Inr []
               \<and> fst (q sql_game_by_id [ident] (snd (q sql_game_scores [ident] db))) = Inr []"
  by (auto simp: get_game_def outcome_defs internal_server_error_def error_json_def
      split: prod.splits sum.splits list.splits)

lemma error_body_shape:
  fixes q :: "('e, 'db) gateway"
  assumes "status_of (handle q req db) \<noteq> 200"
  shows "\<exists>msg. body_of (handle q req db) = Json (JObj [(''error'', JStr msg)])"
  using assms
  by (cases req)
     (auto simp: handler_defs error_json_def outcome_defs
       split: prod.splits sum.splits list.splits if_splits)

lemma get_game_second_query:
  fixes q :: "('e, 'db) gateway"
  shows "sql_game_by_id \<in> set (texts (get_game q ident db))
           \<longleftrightarrow> fst (q sql_game_scores [ident] db) = Inr []"
  by (auto simp: get_game_def texts_def outcome_defs sql_game_by_id_neq
      split: prod.splits sum.splits)

lemma queries_fixed:
  fixes q :: "('e, 'db) gateway"
  shows "queries (effects_of (get_root q db)) = []"
    and "queries (effects_of (get_players q db)) = [(sql_players, [])]"
    and "queries (effects_of (get_player q ident db)) = [(sql_player_by_id, [ident])]"
    and "queries (effects_of (delete_player q ident db)) = [(sql_delete_player, [ident])]"
    and "queries (effects_of (get_games q db)) = [(sql_games, [])]"
    and "queries (effects_of (get_game q ident db)) = [(sql_game_scores, [ident])]
         \<or> queries (effects_of (get_game q ident db))
             = [(sql_game_scores, [ident]), (sql_game_by_id, [ident])]"
    and "queries (effects_of (delete_game q ident db)) = [(sql_delete_game, [ident])]"
  by (auto simp: handler_defs outcome_defs split: prod.splits sum.splits list.splits)

subsection \<open>The state a start-up leaves\<close>

lemma started_db_eq:
  "started_db now =
     \<lparr>Player =
        [\<lparr>p_id = 1, p_name = ''Sebastian'', p_email = Some ''seb@example.com''\<rparr>,
         \<lparr>p_id = 2, p_name = ''Mr. Monopoly'', p_email = Some ''moneybags@example.com''\<rparr>,
         \<lparr>p_id = 3, p_name = ''Thimble'', p_email = Some ''thimble@example.com''\<rparr>],
      Game =
        [\<lparr>g_id = 1, g_time = now - 2 * day\<rparr>,
         \<lparr>g_id = 2, g_time = now - day\<rparr>,
         \<lparr>g_id = 3, g_time = now\<rparr>],
      PlayerGame =
        [\<lparr>pg_gameID = 1, pg_playerID = 1, pg_score = Some 1500\<rparr>,
         \<lparr>pg_gameID = 1, pg_playerID = 2, pg_score = Some 2500\<rparr>,
         \<lparr>pg_gameID = 2, pg_playerID = 1, pg_score = Some 3200\<rparr>,
         \<lparr>pg_gameID = 2, pg_playerID = 2, pg_score = Some 1800\<rparr>,
         \<lparr>pg_gameID = 2, pg_playerID = 3, pg_score = Some 500\<rparr>,
         \<lparr>pg_gameID = 3, pg_playerID = 2, pg_score = Some 5000\<rparr>,
         \<lparr>pg_gameID = 3, pg_playerID = 3, pg_score = Some 4500\<rparr>],
      Player_id_seq = 4, Game_id_seq = 4\<rparr>"
  by (simp add: started_db_def main_def setupDatabase_def pg_query_script run_script_result)

lemma main_listening:
  assumes "main connected (pg_query now) port db0 = (Listening, effs, db)"
  shows "db = started_db now"
  using assms
  by (auto simp: started_db_def main_def setupDatabase_def pg_query_script run_script_result
      split: sum.splits)

lemma main_started:
  "main (Inr ()) (pg_query now) ''3000'' empty_database =
     (Listening,
      [ConsoleLog ''Database connected'', Query sqlScript [],
       ConsoleLog ''Database schema and sample data initialized successfully.'',
       Listen ''3000'',
       ConsoleLog ''Monopoly service listening at http://localhost:3000''],
      started_db now)"
  by (simp add: started_db_def main_def setupDatabase_def pg_query_script run_script_result)

lemma reachable_started: "reachable (started_db now)"
proof -
  have "main (Inr () :: pg_error + unit) (pg_query now) ''3000'' empty_database
          = (Listening,
             fst (snd (main (Inr () :: pg_error + unit) (pg_query now) ''3000'' empty_database)),
             started_db now)"
    by (simp add: started_db_def main_def setupDatabase_def pg_query_script run_script_result)
  then show ?thesis
    by (rule reachable.startup)
qed

subsection \<open>Reading the path parameter\<close>

lemma int4_in_abc: "int4_in ''abc'' = Inl InvalidTextRepresentation"
  by (simp add: int4_in_def is_space_def split_base_def digit_in_def)

lemma int4_in_1: "int4_in ''1'' = Inr 1"
  by (simp add: int4_in_def is_space_def split_base_def digit_in_def)

lemma int4_in_2: "int4_in ''2'' = Inr 2"
  by (simp add: int4_in_def is_space_def split_base_def digit_in_def)

lemma int4_in_3: "int4_in ''3'' = Inr 3"
  by (simp add: int4_in_def is_space_def split_base_def digit_in_def)

lemma int4_in_999: "int4_in ''999'' = Inr 999"
  by (simp add: int4_in_def is_space_def split_base_def digit_in_def)

text \<open>The other spellings of an integer, and what is no integer in any of them.\<close>

lemma int4_in_spellings:
  "int4_in ''0x1'' = Inr 1" "int4_in ''0x2'' = Inr 2" "int4_in ''1_0'' = Inr 10"
  "int4_in ''0b1'' = Inr 1" "int4_in ''0o7'' = Inr 7" "int4_in '' -12 '' = Inr (- 12)"
  "int4_in ''-0x80000000'' = Inr (- 2147483648)"
  by (simp_all add: int4_in_def is_space_def split_base_def digit_in_def)

lemma int4_in_refused:
  "int4_in [] = Inl InvalidTextRepresentation" "int4_in ''1_'' = Inl InvalidTextRepresentation"
  "int4_in ''_1'' = Inl InvalidTextRepresentation" "int4_in ''0x'' = Inl InvalidTextRepresentation"
  "int4_in ''1 2'' = Inl InvalidTextRepresentation"
  "int4_in ''2147483648'' = Inl NumericValueOutOfRange"
  "int4_in ''0x80000000'' = Inl NumericValueOutOfRange"
  by (simp_all add: int4_in_def is_space_def split_base_def digit_in_def)

subsection \<open>The statements on the tables\<close>

lemma set_game_scores:
  "set (select_game_scores n db) =
     score_row ` {(p, r). p \<in> set (Player db) \<and> r \<in> set (PlayerGame db)
                          \<and> p_id p = pg_playerID r \<and> pg_gameID r = n}"
proof -
  have "set [(p, r). p \<leftarrow> Player db, r \<leftarrow> PlayerGame db,
                   p_id p = pg_playerID r, pg_gameID r = n]
        = {(p, r). p \<in> set (Player db) \<and> r \<in> set (PlayerGame db)
                          \<and> p_id p = pg_playerID r \<and> pg_gameID r = n}"
    by auto
  then show ?thesis
    by (simp add: select_game_scores_def)
qed

lemma game_scores_empty:
  "select_game_scores n db = [] \<longleftrightarrow>
     (\<forall>p \<in> set (Player db). \<forall>r \<in> set (PlayerGame db).
        p_id p = pg_playerID r \<longrightarrow> pg_gameID r \<noteq> n)"
proof -
  have "select_game_scores n db = [] \<longleftrightarrow> set (select_game_scores n db) = {}"
    by simp
  also have "\<dots> \<longleftrightarrow> (\<forall>p \<in> set (Player db). \<forall>r \<in> set (PlayerGame db).
        p_id p = pg_playerID r \<longrightarrow> pg_gameID r \<noteq> n)"
    unfolding set_game_scores by auto
  finally show ?thesis .
qed

lemma game_by_id_empty:
  "select_game_by_id n db = [] \<longleftrightarrow> n \<notin> set (map g_id (Game db))"
  by (auto simp: select_game_by_id_def filter_empty_conv)

lemma player_by_id_empty:
  "select_player_by_id n db = [] \<longleftrightarrow> n \<notin> set (map p_id (Player db))"
  by (auto simp: select_player_by_id_def filter_empty_conv)

lemma delete_player_rows_empty:
  "fst (delete_player_by_id n db) = [] \<longleftrightarrow> n \<notin> set (map p_id (Player db))"
  by (auto simp: delete_player_by_id_def Let_def filter_empty_conv)

lemma delete_game_rows_empty:
  "fst (delete_game_by_id n db) = [] \<longleftrightarrow> n \<notin> set (map g_id (Game db))"
  by (auto simp: delete_game_by_id_def Let_def filter_empty_conv)

lemma delete_player_absent:
  assumes "n \<notin> set (map p_id (Player db))"
  shows "snd (delete_player_by_id n db) = db"
proof -
  from assms have "filter (\<lambda>p. p_id p = n) (Player db) = []"
    by (auto simp: filter_empty_conv)
  moreover from assms have "filter (\<lambda>p. p_id p \<noteq> n) (Player db) = Player db"
    by (auto simp: filter_id_conv)
  ultimately show ?thesis
    by (simp add: delete_player_by_id_def)
qed

lemma delete_game_absent:
  assumes "n \<notin> set (map g_id (Game db))"
  shows "snd (delete_game_by_id n db) = db"
proof -
  from assms have "filter (\<lambda>g. g_id g = n) (Game db) = []"
    by (auto simp: filter_empty_conv)
  moreover from assms have "filter (\<lambda>g. g_id g \<noteq> n) (Game db) = Game db"
    by (auto simp: filter_id_conv)
  ultimately show ?thesis
    by (simp add: delete_game_by_id_def)
qed

lemma delete_player_present:
  assumes "n \<in> set (map p_id (Player db))"
  shows "snd (delete_player_by_id n db) =
           db\<lparr>Player := filter (\<lambda>p. p_id p \<noteq> n) (Player db),
              PlayerGame := filter (\<lambda>r. pg_playerID r \<noteq> n) (PlayerGame db)\<rparr>"
proof -
  from assms have "p_id ` {p \<in> set (Player db). p_id p = n} = {n}"
    by auto
  then show ?thesis
    by (simp add: delete_player_by_id_def)
qed

lemma delete_game_present:
  assumes "n \<in> set (map g_id (Game db))"
  shows "snd (delete_game_by_id n db) =
           db\<lparr>Game := filter (\<lambda>g. g_id g \<noteq> n) (Game db),
              PlayerGame := filter (\<lambda>r. pg_gameID r \<noteq> n) (PlayerGame db)\<rparr>"
proof -
  from assms have "g_id ` {g \<in> set (Game db). g_id g = n} = {n}"
    by auto
  then show ?thesis
    by (simp add: delete_game_by_id_def)
qed

lemma delete_player_gone: "n \<notin> set (map p_id (Player (snd (delete_player_by_id n db))))"
  by (auto simp: delete_player_by_id_def Let_def)

lemma delete_game_gone: "n \<notin> set (map g_id (Game (snd (delete_game_by_id n db))))"
  by (auto simp: delete_game_by_id_def Let_def)

lemma length_filter_key:
  assumes "distinct (map f xs)" and "n \<in> set (map f xs)"
  shows "length xs = Suc (length (filter (\<lambda>x. f x \<noteq> n) xs))"
  using assms
proof (induction xs)
  case Nil
  then show ?case by simp
next
  case (Cons x xs)
  show ?case
  proof (cases "f x = n")
    case True
    with Cons.prems have "n \<notin> set (map f xs)" by auto
    then have "filter (\<lambda>x. f x \<noteq> n) xs = xs"
      by (auto simp: filter_id_conv)
    with True show ?thesis by simp
  next
    case False
    with Cons show ?thesis by auto
  qed
qed

subsection \<open>The handlers on this database\<close>

lemma get_game_pg:
  assumes "int4_in ident = Inr n"
  shows "get_game (pg_query now) ident db =
     (if select_game_scores n db = [] then
        (if select_game_by_id n db = [] then
           ((404, Json (error_json ''Game not found'')),
            [Query sql_game_scores [ident], Query sql_game_by_id [ident]], db)
         else ((200, Json (JArr [])),
               [Query sql_game_scores [ident], Query sql_game_by_id [ident]], db))
      else ((200, Json (JArr (map JObj (select_game_scores n db)))),
            [Query sql_game_scores [ident]], db))"
  using assms by (simp add: get_game_def pg_query_game_scores pg_query_game_by_id)

lemma get_player_pg:
  assumes "int4_in ident = Inr n"
  shows "get_player (pg_query now) ident db =
     (case select_player_by_id n db of
        [] \<Rightarrow> ((404, Json (error_json ''Player not found'')),
               [Query sql_player_by_id [ident]], db)
      | r # _ \<Rightarrow> ((200, Json (JObj r)), [Query sql_player_by_id [ident]], db))"
  using assms by (simp add: get_player_def pg_query_player_by_id)

lemma delete_player_pg:
  assumes "int4_in ident = Inr n"
  shows "delete_player (pg_query now) ident db =
     (case fst (delete_player_by_id n db) of
        [] \<Rightarrow> ((404, Json (error_json ''Player not found'')),
               [Query sql_delete_player [ident]], snd (delete_player_by_id n db))
      | r # _ \<Rightarrow>
          ((200, Json (JObj [(''message'', JStr ''Player deleted successfully''),
                             (''player'', JObj r)])),
           [Query sql_delete_player [ident]], snd (delete_player_by_id n db)))"
  using assms by (simp add: delete_player_def pg_query_delete_player)

lemma delete_game_pg:
  assumes "int4_in ident = Inr n"
  shows "delete_game (pg_query now) ident db =
     (case fst (delete_game_by_id n db) of
        [] \<Rightarrow> ((404, Json (error_json ''Game not found'')),
               [Query sql_delete_game [ident]], snd (delete_game_by_id n db))
      | r # _ \<Rightarrow>
          ((200, Json (JObj [(''message'', JStr ''Game deleted successfully''),
                             (''game'', JObj r)])),
           [Query sql_delete_game [ident]], snd (delete_game_by_id n db)))"
  using assms by (simp add: delete_game_def pg_query_delete_game)

lemma bad_id_pg:
  assumes "int4_in ident = Inl e"
  shows "get_player (pg_query now) ident db =
           (internal_server_error, [Query sql_player_by_id [ident], ConsoleError e], db)"
    and "delete_player (pg_query now) ident db =
           (internal_server_error, [Query sql_delete_player [ident], ConsoleError e], db)"
    and "get_game (pg_query now) ident db =
           (internal_server_error, [Query sql_game_scores [ident], ConsoleError e], db)"
    and "delete_game (pg_query now) ident db =
           (internal_server_error, [Query sql_delete_game [ident], ConsoleError e], db)"
  using assms
  by (simp_all add: get_player_def delete_player_def get_game_def delete_game_def
      pg_query_player_by_id pg_query_delete_player pg_query_game_scores pg_query_delete_game
      internal_server_error_def error_json_def)

lemma get_keeps_db:
  assumes "is_get req"
  shows "db_of (handle (pg_query now) req db) = db"
proof (cases req)
  case GetRoot
  then show ?thesis by (simp add: get_root_def db_of_def)
next
  case GetPlayers
  then show ?thesis by (simp add: get_players_def db_of_def pg_query_players)
next
  case (GetPlayer ident)
  then show ?thesis
    by (cases "int4_in ident")
       (simp_all add: bad_id_pg get_player_pg db_of_def split: list.splits)
next
  case GetGames
  then show ?thesis by (simp add: get_games_def db_of_def pg_query_games)
next
  case (GetGame ident)
  then show ?thesis
    by (cases "int4_in ident") (simp_all add: bad_id_pg get_game_pg db_of_def)
next
  case (DeletePlayer ident)
  with assms show ?thesis by simp
next
  case (DeleteGame ident)
  with assms show ?thesis by simp
qed

lemma delete_player_db:
  "db_of (delete_player (pg_query now) ident db) =
     (case int4_in ident of Inl _ \<Rightarrow> db | Inr n \<Rightarrow> snd (delete_player_by_id n db))"
  by (cases "int4_in ident")
     (simp_all add: bad_id_pg delete_player_pg db_of_def split: list.splits)

lemma delete_game_db:
  "db_of (delete_game (pg_query now) ident db) =
     (case int4_in ident of Inl _ \<Rightarrow> db | Inr n \<Rightarrow> snd (delete_game_by_id n db))"
  by (cases "int4_in ident")
     (simp_all add: bad_id_pg delete_game_pg db_of_def split: list.splits)

lemma delete_player_twice:
  assumes "int4_in ident = Inr n" and "n \<in> set (map p_id (Player db))"
  shows "status_of (delete_player (pg_query now) ident db) = 200"
    and "status_of (delete_player (pg_query now') ident
                      (db_of (delete_player (pg_query now) ident db))) = 404"
    and "db_of (delete_player (pg_query now') ident
                  (db_of (delete_player (pg_query now) ident db)))
           = db_of (delete_player (pg_query now) ident db)"
proof -
  define db1 where "db1 = db_of (delete_player (pg_query now) ident db)"
  have db1: "db1 = snd (delete_player_by_id n db)"
    using assms by (simp add: db1_def delete_player_db)
  have gone: "n \<notin> set (map p_id (Player db1))"
    unfolding db1 by (rule delete_player_gone)
  have "fst (delete_player_by_id n db) \<noteq> []"
    using assms by (simp add: delete_player_rows_empty)
  then show "status_of (delete_player (pg_query now) ident db) = 200"
    by (simp add: delete_player_pg [OF assms(1)] status_of_def split: list.splits)
  have "fst (delete_player_by_id n db1) = []"
    using gone by (simp add: delete_player_rows_empty)
  then have "status_of (delete_player (pg_query now') ident db1) = 404"
    by (simp add: delete_player_pg [OF assms(1)] status_of_def)
  then show "status_of (delete_player (pg_query now') ident
                      (db_of (delete_player (pg_query now) ident db))) = 404"
    by (simp add: db1_def)
  have "db_of (delete_player (pg_query now') ident db1) = db1"
    using gone assms(1) by (simp add: delete_player_db delete_player_absent)
  then show "db_of (delete_player (pg_query now') ident
                  (db_of (delete_player (pg_query now) ident db)))
           = db_of (delete_player (pg_query now) ident db)"
    by (simp add: db1_def)
qed

lemma delete_game_twice:
  assumes "int4_in ident = Inr n" and "n \<in> set (map g_id (Game db))"
  shows "status_of (delete_game (pg_query now) ident db) = 200"
    and "status_of (delete_game (pg_query now') ident
                      (db_of (delete_game (pg_query now) ident db))) = 404"
    and "db_of (delete_game (pg_query now') ident
                  (db_of (delete_game (pg_query now) ident db)))
           = db_of (delete_game (pg_query now) ident db)"
proof -
  define db1 where "db1 = db_of (delete_game (pg_query now) ident db)"
  have db1: "db1 = snd (delete_game_by_id n db)"
    using assms by (simp add: db1_def delete_game_db)
  have gone: "n \<notin> set (map g_id (Game db1))"
    unfolding db1 by (rule delete_game_gone)
  have "fst (delete_game_by_id n db) \<noteq> []"
    using assms by (simp add: delete_game_rows_empty)
  then show "status_of (delete_game (pg_query now) ident db) = 200"
    by (simp add: delete_game_pg [OF assms(1)] status_of_def split: list.splits)
  have "fst (delete_game_by_id n db1) = []"
    using gone by (simp add: delete_game_rows_empty)
  then have "status_of (delete_game (pg_query now') ident db1) = 404"
    by (simp add: delete_game_pg [OF assms(1)] status_of_def)
  then show "status_of (delete_game (pg_query now') ident
                      (db_of (delete_game (pg_query now) ident db))) = 404"
    by (simp add: db1_def)
  have "db_of (delete_game (pg_query now') ident db1) = db1"
    using gone assms(1) by (simp add: delete_game_db delete_game_absent)
  then show "db_of (delete_game (pg_query now') ident
                  (db_of (delete_game (pg_query now) ident db)))
           = db_of (delete_game (pg_query now) ident db)"
    by (simp add: db1_def)
qed

lemma two_players_deleted:
  "db_of (delete_player (pg_query 0) ''3''
            (db_of (delete_player (pg_query 0) ''2'' (started_db 0)))) =
     \<lparr>Player = [\<lparr>p_id = 1, p_name = ''Sebastian'', p_email = Some ''seb@example.com''\<rparr>],
      Game =
        [\<lparr>g_id = 1, g_time = 0 - 2 * day\<rparr>,
         \<lparr>g_id = 2, g_time = 0 - day\<rparr>,
         \<lparr>g_id = 3, g_time = 0\<rparr>],
      PlayerGame =
        [\<lparr>pg_gameID = 1, pg_playerID = 1, pg_score = Some 1500\<rparr>,
         \<lparr>pg_gameID = 2, pg_playerID = 1, pg_score = Some 3200\<rparr>],
      Player_id_seq = 4, Game_id_seq = 4\<rparr>"
  by (simp add: delete_player_db int4_in_2 int4_in_3 delete_player_by_id_def started_db_eq)

text \<open>A hexadecimal id names its row like the decimal one.\<close>

lemma hexadecimal_id:
  "status_of (get_player (pg_query 0) ''0x1'' (started_db 0)) = 200"
  "status_of (delete_player (pg_query 0) ''0x2'' (started_db 0)) = 200"
  "map p_id (Player (db_of (delete_player (pg_query 0) ''0x2'' (started_db 0)))) = [1, 3]"
  by (simp_all add: get_player_pg [OF int4_in_spellings(1)]
      delete_player_pg [OF int4_in_spellings(2)] status_of_def db_of_def started_db_eq
      select_player_by_id_def delete_player_by_id_def)

subsection \<open>The constraints hold in every reachable state\<close>

lemma integrity_started: "integrity (started_db now)"
  by (simp add: started_db_eq integrity_def)

lemma distinct_emails_filter:
  "distinct (filter Q (map f xs)) \<Longrightarrow> distinct (filter Q (map f (filter P xs)))"
  by (induction xs) auto

lemma integrity_delete_player:
  assumes "integrity db"
  shows "integrity (snd (delete_player_by_id n db))"
proof (cases "n \<in> set (map p_id (Player db))")
  case True
  with assms show ?thesis
    unfolding delete_player_present [OF True] integrity_def
    by (auto simp: distinct_map_filter distinct_emails_filter)
next
  case False
  with assms show ?thesis
    by (simp add: delete_player_absent)
qed

lemma integrity_delete_game:
  assumes "integrity db"
  shows "integrity (snd (delete_game_by_id n db))"
proof (cases "n \<in> set (map g_id (Game db))")
  case True
  with assms show ?thesis
    unfolding delete_game_present [OF True] integrity_def
    by (auto simp: distinct_map_filter)
next
  case False
  with assms show ?thesis
    by (simp add: delete_game_absent)
qed

lemma integrity_handle:
  assumes "integrity db"
  shows "integrity (db_of (handle (pg_query now) req db))"
proof (cases "is_get req")
  case True
  with assms show ?thesis by (simp add: get_keeps_db)
next
  case False
  then show ?thesis
  proof (cases req)
    case (DeletePlayer ident)
    with assms show ?thesis
      by (simp add: delete_player_db integrity_delete_player split: sum.splits)
  next
    case (DeleteGame ident)
    with assms show ?thesis
      by (simp add: delete_game_db integrity_delete_game split: sum.splits)
  qed simp_all
qed

lemma reachable_integrity:
  assumes "reachable db"
  shows "integrity db"
  using assms
proof (induction rule: reachable.induct)
  case (startup connected now port db0 effs db)
  then show ?case
    using main_listening integrity_started by blast
next
  case (request db now req)
  then show ?case by (simp add: integrity_handle)
qed

lemma integrity_no_game_no_scores:
  assumes "integrity db" and "n \<notin> set (map g_id (Game db))"
  shows "select_game_scores n db = []"
  using assms unfolding game_scores_empty integrity_def by auto

lemma integrity_scores_of_row:
  assumes "integrity db" and "r \<in> set (PlayerGame db)" and "pg_gameID r = n"
  shows "\<exists>p \<in> set (Player db). p_id p = pg_playerID r
           \<and> [(''name'', JStr (p_name p)),
               (''score'', case pg_score r of None \<Rightarrow> JNull | Some s \<Rightarrow> JInt s)]
              \<in> set (select_game_scores n db)"
proof -
  from assms obtain p where p: "p \<in> set (Player db)" "p_id p = pg_playerID r"
    unfolding integrity_def by auto
  with assms have "score_row (p, r) \<in> set (select_game_scores n db)"
    unfolding set_game_scores by blast
  with p show ?thesis
    by (auto simp: score_row_def)
qed

lemma get_game_404_pg:
  assumes "integrity db" and "int4_in ident = Inr n"
  shows "status_of (get_game (pg_query now) ident db) = 404
           \<longleftrightarrow> n \<notin> set (map g_id (Game db))"
    and "response_of (get_game (pg_query now) ident db)
             = (404, Json (JObj [(''error'', JStr ''Game not found'')]))
           \<longleftrightarrow> n \<notin> set (map g_id (Game db))"
  using integrity_no_game_no_scores [OF assms(1), of n]
  by (auto simp: get_game_pg [OF assms(2)] status_of_def response_of_def error_json_def
      game_by_id_empty)

section \<open>The claims\<close>

text \<open>
  C1, as the code has it: in a reachable state and for a path parameter that the
  database reads as an integer, \<^verbatim>\<open>GET /games/:id\<close> answers 404 with the body
  \<^verbatim>\<open>{ "error": "Game not found" }\<close> exactly when \<^verbatim>\<open>Game\<close> has no row with that id; when
  the row exists and the join has no rows, the answer is 200 with the empty array; and,
  for every parameter and every gateway, the look-up in \<^verbatim>\<open>Game\<close> is submitted exactly
  when the join came back with no rows.
\<close>

theorem get_game_404_iff:
  fixes q :: "('e, 'db) gateway"
  assumes "reachable db" and "int4_in ident = Inr n"
  shows "(response_of (get_game (pg_query now) ident db)
              = (404, Json (JObj [(''error'', JStr ''Game not found'')]))
            \<longleftrightarrow> \<not> game_row_exists ident db)
       \<and> (status_of (get_game (pg_query now) ident db) = 404
            \<longleftrightarrow> \<not> game_row_exists ident db)
       \<and> (game_row_exists ident db \<and> select_game_scores n db = [] \<longrightarrow>
            response_of (get_game (pg_query now) ident db) = (200, Json (JArr [])))
       \<and> (sql_game_by_id \<in> set (texts (get_game q ident' db'))
            \<longleftrightarrow> fst (q sql_game_scores [ident'] db') = Inr [])"
proof -
  have i: "integrity db"
    using assms(1) by (rule reachable_integrity)
  have e: "game_row_exists ident db \<longleftrightarrow> n \<in> set (map g_id (Game db))"
    using assms(2) by (simp add: game_row_exists_def)
  have "game_row_exists ident db \<and> select_game_scores n db = [] \<longrightarrow>
            response_of (get_game (pg_query now) ident db) = (200, Json (JArr []))"
    unfolding e by (simp add: get_game_pg [OF assms(2)] response_of_def game_by_id_empty)
  then show ?thesis
    using get_game_404_pg [OF i assms(2), of now] get_game_second_query [of q ident' db'] e
    by simp
qed

text \<open>
  For a parameter that is not an integer the equivalence fails: no row of \<^verbatim>\<open>Game\<close> has
  the id \<^verbatim>\<open>abc\<close>, and the answer is 500.
\<close>

theorem get_game_404_iff_counterexample:
  "reachable (started_db 0)
   \<and> \<not> game_row_exists ''abc'' (started_db 0)
   \<and> status_of (get_game (pg_query 0) ''abc'' (started_db 0)) = 500"
proof -
  have "\<not> game_row_exists ''abc'' (started_db 0)"
    by (simp add: game_row_exists_def int4_in_abc)
  moreover have "status_of (get_game (pg_query 0) ''abc'' (started_db 0)) = 500"
    by (simp add: bad_id_pg [OF int4_in_abc] status_of_def internal_server_error_def)
  ultimately show ?thesis
    using reachable_started [of 0] by simp
qed

text \<open>
  After players 2 and 3 are deleted, game 3 is still there and has no rows left in
  \<^verbatim>\<open>PlayerGame\<close>: 200 with the empty array. Game 999 never existed: 404.
\<close>

theorem get_game_404_iff_witness:
  "reachable (db_of (delete_player (pg_query 0) ''3''
                       (db_of (delete_player (pg_query 0) ''2'' (started_db 0)))))
   \<and> int4_in ''3'' = Inr 3
   \<and> game_row_exists ''3'' (db_of (delete_player (pg_query 0) ''3''
                       (db_of (delete_player (pg_query 0) ''2'' (started_db 0)))))
   \<and> response_of (get_game (pg_query 0) ''3''
        (db_of (delete_player (pg_query 0) ''3''
                  (db_of (delete_player (pg_query 0) ''2'' (started_db 0))))))
       = (200, Json (JArr []))
   \<and> status_of (get_game (pg_query 0) ''999'' (started_db 0)) = 404"
proof -
  have r1: "reachable (db_of (handle (pg_query 0) (DeletePlayer ''2'') (started_db 0)))"
    using reachable_started by (rule reachable.request)
  have "reachable (db_of (handle (pg_query 0) (DeletePlayer ''3'')
          (db_of (handle (pg_query 0) (DeletePlayer ''2'') (started_db 0)))))"
    using r1 by (rule reachable.request)
  then have r: "reachable (db_of (delete_player (pg_query 0) ''3''
                       (db_of (delete_player (pg_query 0) ''2'' (started_db 0)))))"
    by simp
  have g: "game_row_exists ''3'' (db_of (delete_player (pg_query 0) ''3''
                       (db_of (delete_player (pg_query 0) ''2'' (started_db 0)))))"
    by (simp add: two_players_deleted game_row_exists_def int4_in_3)
  have s: "select_game_scores 3 (db_of (delete_player (pg_query 0) ''3''
                       (db_of (delete_player (pg_query 0) ''2'' (started_db 0))))) = []"
    by (simp add: two_players_deleted select_game_scores_def)
  have m: "\<not> game_row_exists ''999'' (started_db 0)"
    by (simp add: game_row_exists_def int4_in_999 started_db_eq)
  show ?thesis
    using r g s m int4_in_3
      get_game_404_iff [OF r int4_in_3, of 0 "pg_query 0" "''3''" "started_db 0"]
      get_game_404_iff [OF reachable_started [of 0] int4_in_999, of 0 "pg_query 0" "''3''" "started_db 0"]
    by simp
qed

text \<open>
  C2: the call of \<^verbatim>\<open>app.listen\<close> happens exactly when the connection was established and
  the set-up script went through, and then after both, as the trace of effects shows;
  when the connection or the script fails, the server never listens and the process
  ends with a non-zero exit status.
\<close>

theorem listen_only_after_setup:
  fixes q :: "('e, 'db) gateway"
  shows "(list_ex is_listen (fst (snd (main connected q port db)))
            \<longleftrightarrow> \<not> isl connected \<and> \<not> isl (fst (q sqlScript [] db)))
       \<and> (\<not> isl connected \<and> \<not> isl (fst (q sqlScript [] db)) \<longrightarrow>
            main connected q port db =
              (Listening,
               [ConsoleLog ''Database connected'', Query sqlScript [],
                ConsoleLog ''Database schema and sample data initialized successfully.'',
                Listen port,
                ConsoleLog (''Monopoly service listening at http://localhost:'' @ port)],
               snd (q sqlScript [] db)))
       \<and> (isl connected \<or> isl (fst (q sqlScript [] db)) \<longrightarrow>
            (\<exists>n. n \<noteq> 0 \<and> fst (main connected q port db) = Exited n))"
  by (auto simp: main_def setupDatabase_def split: prod.splits sum.splits)

theorem listen_only_after_setup_witness:
  "main (Inr ()) (pg_query 0) ''3000'' empty_database =
     (Listening,
      [ConsoleLog ''Database connected'', Query sqlScript [],
       ConsoleLog ''Database schema and sample data initialized successfully.'',
       Listen ''3000'',
       ConsoleLog (''Monopoly service listening at http://localhost:'' @ ''3000'')],
      snd (pg_query 0 sqlScript [] empty_database))
   \<and> \<not> list_ex is_listen
         (fst (snd (main (Inl ProtocolViolation) (pg_query 0) ''3000'' empty_database)))
   \<and> (\<exists>n. n \<noteq> 0
          \<and> fst (main (Inl ProtocolViolation) (pg_query 0) ''3000'' empty_database) = Exited n)"
  using listen_only_after_setup [of "Inr ()" "pg_query 0" "''3000''" empty_database]
    listen_only_after_setup [of "Inl ProtocolViolation" "pg_query 0" "''3000''" empty_database]
  by (simp add: pg_query_script run_script_result)

text \<open>
  C3: in each of the six handlers that query the database, a failed statement gives
  the one fixed response 500 \<^verbatim>\<open>{ "error": "Internal server error" }\<close>, whatever the error
  was, and nothing else gives it; 404 is the answer exactly when the statement went
  through and came back with no rows; and every response other than 200 has a body of
  the form \<^verbatim>\<open>{ "error": <string> }\<close>.
\<close>

theorem query_errors_become_500:
  fixes q :: "('e, 'db) gateway"
  shows "(response_of (get_players q db) = internal_server_error
            \<longleftrightarrow> isl (fst (q sql_players [] db)))
       \<and> (response_of (get_player q ident db) = internal_server_error
            \<longleftrightarrow> isl (fst (q sql_player_by_id [ident] db)))
       \<and> (response_of (delete_player q ident db) = internal_server_error
            \<longleftrightarrow> isl (fst (q sql_delete_player [ident] db)))
       \<and> (response_of (get_games q db) = internal_server_error
            \<longleftrightarrow> isl (fst (q sql_games [] db)))
       \<and> (response_of (get_game q ident db) = internal_server_error
            \<longleftrightarrow> isl (fst (q sql_game_scores [ident] db))
                \<or> fst (q sql_game_scores [ident] db) = Inr []
                  \<and> isl (fst (q sql_game_by_id [ident] (snd (q sql_game_scores [ident] db)))))
       \<and> (response_of (delete_game q ident db) = internal_server_error
            \<longleftrightarrow> isl (fst (q sql_delete_game [ident] db)))
       \<and> (status_of (get_player q ident db) = 404
            \<longleftrightarrow> fst (q sql_player_by_id [ident] db) = Inr [])
       \<and> (status_of (delete_player q ident db) = 404
            \<longleftrightarrow> fst (q sql_delete_player [ident] db) = Inr [])
       \<and> (status_of (get_game q ident db) = 404
            \<longleftrightarrow> fst (q sql_game_scores [ident] db) = Inr []
                \<and> fst (q sql_game_by_id [ident] (snd (q sql_game_scores [ident] db))) = Inr [])
       \<and> (status_of (delete_game q ident db) = 404
            \<longleftrightarrow> fst (q sql_delete_game [ident] db) = Inr [])
       \<and> (status_of (handle q req db) \<noteq> 200 \<longrightarrow>
            (\<exists>msg. body_of (handle q req db) = Json (JObj [(''error'', JStr msg)])))"
  using get_players_500 [of q db] get_player_500_404 [of q ident db]
    delete_player_500_404 [of q ident db] get_games_500 [of q db]
    get_game_500_404 [of q ident db] delete_game_500_404 [of q ident db]
    error_body_shape [of q req db]
  by simp

theorem query_errors_become_500_witness:
  "response_of (get_player (pg_query 0) ''abc'' (started_db 0)) = internal_server_error
   \<and> status_of (get_player (pg_query 0) ''999'' (started_db 0)) = 404
   \<and> body_of (handle (pg_query 0) (GetPlayer ''999'') (started_db 0))
       = Json (JObj [(''error'', JStr ''Player not found'')])"
  using query_errors_become_500 [of "pg_query 0" "started_db 0" "''abc''" "GetPlayer ''999''"]
    query_errors_become_500 [of "pg_query 0" "started_db 0" "''999''" "GetPlayer ''999''"]
  apply (simp add: pg_query_player_by_id int4_in_abc int4_in_999 started_db_eq select_player_by_id_def)
  apply (simp add: get_player_def outcome_defs pg_query_player_by_id int4_in_999 select_player_by_id_def error_json_def)
  done

text \<open>
  C4: in the state a successful start-up leaves, \<^verbatim>\<open>GET /players\<close> answers 200 with the
  three seeded players in ascending order of name: Mr. Monopoly, Sebastian, Thimble.
\<close>

theorem get_players_after_startup:
  assumes "main connected (pg_query now) port db0 = (Listening, effs, db)"
  shows "response_of (get_players (pg_query now') db) =
           (200, Json (JArr
              [JObj [(''id'', JInt 2), (''name'', JStr ''Mr. Monopoly''),
                     (''email'', JStr ''moneybags@example.com'')],
               JObj [(''id'', JInt 1), (''name'', JStr ''Sebastian''),
                     (''email'', JStr ''seb@example.com'')],
               JObj [(''id'', JInt 3), (''name'', JStr ''Thimble''),
                     (''email'', JStr ''thimble@example.com'')]]))"
proof -
  have "db = started_db now"
    using assms by (rule main_listening)
  then show ?thesis
    by (simp add: get_players_def pg_query_players response_of_def started_db_eq
        select_players_def player_row_def)
qed

theorem get_players_after_startup_witness:
  "response_of (get_players (pg_query 5) (started_db 0)) =
           (200, Json (JArr
              [JObj [(''id'', JInt 2), (''name'', JStr ''Mr. Monopoly''),
                     (''email'', JStr ''moneybags@example.com'')],
               JObj [(''id'', JInt 1), (''name'', JStr ''Sebastian''),
                     (''email'', JStr ''seb@example.com'')],
               JObj [(''id'', JInt 3), (''name'', JStr ''Thimble''),
                     (''email'', JStr ''thimble@example.com'')]]))"
  using get_players_after_startup [OF main_started [of 0], of 5] by simp

text \<open>
  C5: in the state a successful start-up leaves, \<^verbatim>\<open>GET /games/1\<close> answers 200 with
  Mr. Monopoly at 2500 and then Sebastian at 1500.
\<close>

theorem get_game_1_after_startup:
  assumes "main connected (pg_query now) port db0 = (Listening, effs, db)"
  shows "response_of (get_game (pg_query now') ''1'' db) =
           (200, Json (JArr
              [JObj [(''name'', JStr ''Mr. Monopoly''), (''score'', JInt 2500)],
               JObj [(''name'', JStr ''Sebastian''), (''score'', JInt 1500)]]))"
proof -
  have "db = started_db now"
    using assms by (rule main_listening)
  then show ?thesis
    by (simp add: get_game_pg [OF int4_in_1] response_of_def started_db_eq
        select_game_scores_def score_row_def)
qed

theorem get_game_1_after_startup_witness:
  "response_of (get_game (pg_query 5) ''1'' (started_db 0)) =
           (200, Json (JArr
              [JObj [(''name'', JStr ''Mr. Monopoly''), (''score'', JInt 2500)],
               JObj [(''name'', JStr ''Sebastian''), (''score'', JInt 1500)]]))"
  using get_game_1_after_startup [OF main_started [of 0], of 5] by simp

text \<open>
  C6, as the code has it: in every reachable state, no \<^verbatim>\<open>GET\<close> request changes the
  database; and for the id of a player that exists, \<^verbatim>\<open>DELETE /players/:id\<close> twice in a
  row answers 200 and then 404, the second call leaving the database as the first left
  it. The same holds for \<^verbatim>\<open>DELETE /games/:id\<close> and the id of a game that exists.
\<close>

theorem get_pure_delete_twice:
  assumes "reachable db"
  shows "(is_get req \<longrightarrow> db_of (handle (pg_query now) req db) = db)
       \<and> (player_row_exists ident db \<longrightarrow>
            status_of (delete_player (pg_query now) ident db) = 200
          \<and> status_of (delete_player (pg_query now') ident
                         (db_of (delete_player (pg_query now) ident db))) = 404
          \<and> db_of (delete_player (pg_query now') ident
                     (db_of (delete_player (pg_query now) ident db)))
              = db_of (delete_player (pg_query now) ident db))
       \<and> (game_row_exists ident' db \<longrightarrow>
            status_of (delete_game (pg_query now) ident' db) = 200
          \<and> status_of (delete_game (pg_query now') ident'
                         (db_of (delete_game (pg_query now) ident' db))) = 404
          \<and> db_of (delete_game (pg_query now') ident'
                     (db_of (delete_game (pg_query now) ident' db)))
              = db_of (delete_game (pg_query now) ident' db))"
proof -
  have "is_get req \<longrightarrow> db_of (handle (pg_query now) req db) = db"
    by (simp add: get_keeps_db)
  moreover have "player_row_exists ident db \<longrightarrow>
            status_of (delete_player (pg_query now) ident db) = 200
          \<and> status_of (delete_player (pg_query now') ident
                         (db_of (delete_player (pg_query now) ident db))) = 404
          \<and> db_of (delete_player (pg_query now') ident
                     (db_of (delete_player (pg_query now) ident db)))
              = db_of (delete_player (pg_query now) ident db)"
    by (cases "int4_in ident") (simp_all add: player_row_exists_def delete_player_twice)
  moreover have "game_row_exists ident' db \<longrightarrow>
            status_of (delete_game (pg_query now) ident' db) = 200
          \<and> status_of (delete_game (pg_query now') ident'
                         (db_of (delete_game (pg_query now) ident' db))) = 404
          \<and> db_of (delete_game (pg_query now') ident'
                     (db_of (delete_game (pg_query now) ident' db)))
              = db_of (delete_game (pg_query now) ident' db)"
    by (cases "int4_in ident'") (simp_all add: game_row_exists_def delete_game_twice)
  ultimately show ?thesis
    by blast
qed

text \<open>
  For an id that names no row the first answer is already 404, not 200.
\<close>

theorem get_pure_delete_twice_counterexample:
  "reachable (started_db 0)
   \<and> status_of (delete_player (pg_query 0) ''999'' (started_db 0)) = 404
   \<and> status_of (delete_game (pg_query 0) ''999'' (started_db 0)) = 404"
proof -
  have "status_of (delete_player (pg_query 0) ''999'' (started_db 0)) = 404"
    by (simp add: delete_player_pg [OF int4_in_999] status_of_def started_db_eq
        delete_player_by_id_def)
  moreover have "status_of (delete_game (pg_query 0) ''999'' (started_db 0)) = 404"
    by (simp add: delete_game_pg [OF int4_in_999] status_of_def started_db_eq
        delete_game_by_id_def)
  ultimately show ?thesis
    using reachable_started [of 0] by simp
qed

theorem get_pure_delete_twice_witness:
  "reachable (started_db 0) \<and> is_get (GetGame ''2'') \<and> player_row_exists ''2'' (started_db 0)
   \<and> game_row_exists ''2'' (started_db 0)
   \<and> db_of (handle (pg_query 0) (GetGame ''2'') (started_db 0)) = started_db 0
   \<and> status_of (delete_player (pg_query 0) ''2'' (started_db 0)) = 200
   \<and> status_of (delete_player (pg_query 1) ''2''
                         (db_of (delete_player (pg_query 0) ''2'' (started_db 0)))) = 404
   \<and> status_of (delete_game (pg_query 0) ''2'' (started_db 0)) = 200
   \<and> status_of (delete_game (pg_query 1) ''2''
                         (db_of (delete_game (pg_query 0) ''2'' (started_db 0)))) = 404"
proof -
  have r: "reachable (started_db 0)"
    by (rule reachable_started)
  have p: "player_row_exists ''2'' (started_db 0)"
    by (simp add: player_row_exists_def int4_in_2 started_db_eq)
  have g: "game_row_exists ''2'' (started_db 0)"
    by (simp add: game_row_exists_def int4_in_2 started_db_eq)
  show ?thesis
    using r p g
      get_pure_delete_twice [OF r, of "GetGame ''2''" 0 "''2''" 1 "''2''"]
    by simp
qed

text \<open>
  C7: in a reachable state and for the id of a game that exists, \<^verbatim>\<open>DELETE /games/:id\<close>
  answers 200 and removes the one row of \<^verbatim>\<open>Game\<close> with that id and the rows of
  \<^verbatim>\<open>PlayerGame\<close> with that \<^verbatim>\<open>gameID\<close>; all other rows of the two tables stay, in their
  order, and nothing else in the database changes. \<^verbatim>\<open>GET /games/:id\<close> for the same id
  then answers 404.
\<close>

theorem delete_game_frame:
  assumes "reachable db" and "int4_in ident = Inr n" and "n \<in> set (map g_id (Game db))"
  shows "let db' = db_of (delete_game (pg_query now) ident db) in
           status_of (delete_game (pg_query now) ident db) = 200
         \<and> db' = db\<lparr>Game := filter (\<lambda>g. g_id g \<noteq> n) (Game db),
                     PlayerGame := filter (\<lambda>r. pg_gameID r \<noteq> n) (PlayerGame db)\<rparr>
         \<and> Game db' = filter (\<lambda>g. g_id g \<noteq> n) (Game db)
         \<and> length (Game db) = Suc (length (Game db'))
         \<and> PlayerGame db' = filter (\<lambda>r. pg_gameID r \<noteq> n) (PlayerGame db)
         \<and> Player db' = Player db
         \<and> response_of (get_game (pg_query now') ident db')
             = (404, Json (JObj [(''error'', JStr ''Game not found'')]))"
proof -
  define db' where "db' = db_of (delete_game (pg_query now) ident db)"
  have db': "db' = db\<lparr>Game := filter (\<lambda>g. g_id g \<noteq> n) (Game db),
                      PlayerGame := filter (\<lambda>r. pg_gameID r \<noteq> n) (PlayerGame db)\<rparr>"
    using assms(2,3) by (simp add: db'_def delete_game_db delete_game_present)
  have "fst (delete_game_by_id n db) \<noteq> []"
    using assms(3) by (simp add: delete_game_rows_empty)
  then have st: "status_of (delete_game (pg_query now) ident db) = 200"
    by (simp add: delete_game_pg [OF assms(2)] status_of_def split: list.splits)
  have "distinct (map g_id (Game db))"
    using reachable_integrity [OF assms(1)] by (simp add: integrity_def)
  then have len: "length (Game db) = Suc (length (Game db'))"
    using assms(3) by (simp add: db' length_filter_key)
  have "select_game_scores n db' = []"
    by (auto simp: game_scores_empty db')
  moreover have "select_game_by_id n db' = []"
    by (auto simp: game_by_id_empty db')
  ultimately have "response_of (get_game (pg_query now') ident db')
             = (404, Json (JObj [(''error'', JStr ''Game not found'')]))"
    by (simp add: get_game_pg [OF assms(2)] response_of_def error_json_def)
  with st len db' show ?thesis
    unfolding Let_def db'_def [symmetric] by simp
qed

theorem delete_game_frame_witness:
  "reachable (started_db 0) \<and> int4_in ''2'' = Inr 2 \<and> 2 \<in> set (map g_id (Game (started_db 0)))
   \<and> map g_id (Game (db_of (delete_game (pg_query 0) ''2'' (started_db 0)))) = [1, 3]
   \<and> map pg_gameID (PlayerGame (db_of (delete_game (pg_query 0) ''2'' (started_db 0))))
       = [1, 1, 3, 3]
   \<and> response_of (get_game (pg_query 1) ''2''
                     (db_of (delete_game (pg_query 0) ''2'' (started_db 0))))
       = (404, Json (JObj [(''error'', JStr ''Game not found'')]))"
proof -
  have r: "reachable (started_db 0)"
    by (rule reachable_started)
  have g: "2 \<in> set (map g_id (Game (started_db 0)))"
    by (simp add: started_db_eq)
  note frame = delete_game_frame [OF r int4_in_2 g, of 0 1, unfolded Let_def]
  from frame have "Game (db_of (delete_game (pg_query 0) ''2'' (started_db 0)))
      = filter (\<lambda>g. g_id g \<noteq> 2) (Game (started_db 0))"
    by simp
  then have a: "map g_id (Game (db_of (delete_game (pg_query 0) ''2'' (started_db 0)))) = [1, 3]"
    by (simp add: started_db_eq)
  from frame have "PlayerGame (db_of (delete_game (pg_query 0) ''2'' (started_db 0)))
      = filter (\<lambda>r. pg_gameID r \<noteq> 2) (PlayerGame (started_db 0))"
    by simp
  then have b: "map pg_gameID (PlayerGame (db_of (delete_game (pg_query 0) ''2'' (started_db 0))))
       = [1, 1, 3, 3]"
    by (simp add: started_db_eq)
  from frame have c: "response_of (get_game (pg_query 1) ''2''
                     (db_of (delete_game (pg_query 0) ''2'' (started_db 0))))
       = (404, Json (JObj [(''error'', JStr ''Game not found'')]))"
    by blast
  from r g a b c show ?thesis
    by (simp add: int4_in_2)
qed

text \<open>
  C8: whatever the path parameter, the gateway and the database, each handler submits
  the same fixed statement texts; the parameter travels only in the list of placeholder
  values. \<^verbatim>\<open>GET /games/:id\<close> submits the join, and after it at most the look-up in \<^verbatim>\<open>Game\<close>.
\<close>

theorem statement_texts_fixed:
  fixes q :: "('e, 'db) gateway"
  shows "queries (effects_of (get_root q db)) = []
       \<and> queries (effects_of (get_players q db)) = [(sql_players, [])]
       \<and> queries (effects_of (get_player q ident db)) = [(sql_player_by_id, [ident])]
       \<and> queries (effects_of (delete_player q ident db)) = [(sql_delete_player, [ident])]
       \<and> queries (effects_of (get_games q db)) = [(sql_games, [])]
       \<and> (queries (effects_of (get_game q ident db)) = [(sql_game_scores, [ident])]
          \<or> queries (effects_of (get_game q ident db))
              = [(sql_game_scores, [ident]), (sql_game_by_id, [ident])])
       \<and> queries (effects_of (delete_game q ident db)) = [(sql_delete_game, [ident])]"
  by (intro conjI queries_fixed)

text \<open>
  C9: in a database that keeps the constraints of the schema, a row of \<^verbatim>\<open>PlayerGame\<close>
  for the game with a \<^verbatim>\<open>NULL\<close> score makes \<^verbatim>\<open>GET /games/:id\<close> answer 200 with a non-empty
  array that has that player with score \<^verbatim>\<open>null\<close>; the empty array is the answer exactly
  when the game exists and has no row in \<^verbatim>\<open>PlayerGame\<close> at all.
\<close>

theorem get_game_null_scores:
  assumes "integrity db" and "int4_in ident = Inr n"
  shows "(\<forall>r \<in> set (PlayerGame db). pg_gameID r = n \<and> pg_score r = None \<longrightarrow>
            (\<exists>rows. response_of (get_game (pg_query now) ident db) = (200, Json (JArr rows))
               \<and> rows \<noteq> []
               \<and> (\<exists>p \<in> set (Player db). p_id p = pg_playerID r
                     \<and> JObj [(''name'', JStr (p_name p)), (''score'', JNull)] \<in> set rows)))
       \<and> (response_of (get_game (pg_query now) ident db) = (200, Json (JArr []))
            \<longleftrightarrow> n \<in> set (map g_id (Game db))
                \<and> (\<forall>r \<in> set (PlayerGame db). pg_gameID r \<noteq> n))"
proof (intro conjI ballI impI)
  fix r
  assume r: "r \<in> set (PlayerGame db)" and "pg_gameID r = n \<and> pg_score r = None"
  then have rn: "pg_gameID r = n" and null: "pg_score r = None"
    by simp_all
  from integrity_scores_of_row [OF assms(1) r rn] null
  obtain p where p: "p \<in> set (Player db)" "p_id p = pg_playerID r"
    "[(''name'', JStr (p_name p)), (''score'', JNull)] \<in> set (select_game_scores n db)"
    by auto
  then have ne: "select_game_scores n db \<noteq> []"
    by auto
  let ?rows = "map JObj (select_game_scores n db)"
  have "response_of (get_game (pg_query now) ident db) = (200, Json (JArr ?rows))"
    using ne by (simp add: get_game_pg [OF assms(2)] response_of_def)
  moreover have "?rows \<noteq> []"
    using ne by simp
  moreover have "\<exists>p \<in> set (Player db). p_id p = pg_playerID r
                     \<and> JObj [(''name'', JStr (p_name p)), (''score'', JNull)] \<in> set ?rows"
    using p by auto
  ultimately show "\<exists>rows. response_of (get_game (pg_query now) ident db) = (200, Json (JArr rows))
               \<and> rows \<noteq> []
               \<and> (\<exists>p \<in> set (Player db). p_id p = pg_playerID r
                     \<and> JObj [(''name'', JStr (p_name p)), (''score'', JNull)] \<in> set rows)"
    by blast
next
  have rows: "select_game_scores n db = [] \<longleftrightarrow> (\<forall>r \<in> set (PlayerGame db). pg_gameID r \<noteq> n)"
    using assms(1) unfolding game_scores_empty integrity_def by auto
  show "response_of (get_game (pg_query now) ident db) = (200, Json (JArr []))
            \<longleftrightarrow> n \<in> set (map g_id (Game db))
                \<and> (\<forall>r \<in> set (PlayerGame db). pg_gameID r \<noteq> n)"
    using rows
    by (auto simp: get_game_pg [OF assms(2)] response_of_def game_by_id_empty)
qed

theorem get_game_null_scores_witness:
  "integrity unscored_db \<and> int4_in ''1'' = Inr 1
   \<and> (\<exists>rows. response_of (get_game (pg_query 0) ''1'' unscored_db) = (200, Json (JArr rows))
         \<and> rows \<noteq> []
         \<and> JObj [(''name'', JStr ''Thimble''), (''score'', JNull)] \<in> set rows)"
proof -
  have i: "integrity unscored_db"
    by (simp add: integrity_def unscored_db_def)
  show ?thesis
    using i int4_in_1 get_game_null_scores [OF i int4_in_1, of 0]
    by (simp add: unscored_db_def)
qed

text \<open>
  C10: when the database cannot read the path parameter as an integer in any of the
  spellings it knows, each of the four handlers with a parameter answers 500 with the
  body \<^verbatim>\<open>{ "error": "Internal server error" }\<close>.
\<close>

theorem bad_id_gives_500:
  assumes "isl (int4_in ident)"
  shows "response_of (get_player (pg_query now) ident db)
           = (500, Json (JObj [(''error'', JStr ''Internal server error'')]))
       \<and> response_of (delete_player (pg_query now) ident db)
           = (500, Json (JObj [(''error'', JStr ''Internal server error'')]))
       \<and> response_of (get_game (pg_query now) ident db)
           = (500, Json (JObj [(''error'', JStr ''Internal server error'')]))
       \<and> response_of (delete_game (pg_query now) ident db)
           = (500, Json (JObj [(''error'', JStr ''Internal server error'')]))"
proof -
  from assms obtain e where "int4_in ident = Inl e"
    by (cases "int4_in ident") simp_all
  then show ?thesis
    by (simp add: bad_id_pg response_of_def internal_server_error_def)
qed

theorem bad_id_gives_500_witness:
  "isl (int4_in ''abc'')
   \<and> response_of (get_player (pg_query 0) ''abc'' (started_db 0))
           = (500, Json (JObj [(''error'', JStr ''Internal server error'')]))
   \<and> response_of (delete_player (pg_query 0) ''abc'' (started_db 0))
           = (500, Json (JObj [(''error'', JStr ''Internal server error'')]))
   \<and> response_of (get_game (pg_query 0) ''abc'' (started_db 0))
           = (500, Json (JObj [(''error'', JStr ''Internal server error'')]))
   \<and> response_of (delete_game (pg_query 0) ''abc'' (started_db 0))
           = (500, Json (JObj [(''error'', JStr ''Internal server error'')]))"
proof -
  have h: "isl (int4_in ''abc'')"
    by (simp add: int4_in_abc)
  show ?thesis
    using h bad_id_gives_500 [OF h, of 0 "started_db 0"] by simp
qed

end
